theory Spec2Isabelle
  imports Main "HOL-Library.Word"
begin

unbundle bit_operations_syntax

section \<open>Package i2c: connections to devices on a Linux i2c bus\<close>

text \<open>
  A shallow embedding of \<^verbatim>\<open>i2c.go\<close>. The Go package wraps three kinds of system
  services (opening a device file, ioctl, read/write/close on the file) and the byte-order
  codecs of \<^verbatim>\<open>encoding/binary\<close>. The services are external to the package, so
  the embedding takes their behaviour as a parameter (a record of response functions over
  an arbitrary world state) and records every call made to them in a log. The functions
  of the package itself are translated one by one.
\<close>

subsection \<open>Constants from \<^verbatim>\<open>linux/i2c-dev.h\<close>\<close>

definition RETRIES :: nat where "RETRIES = 0x0701"
definition TIMEOUT :: nat where "TIMEOUT = 0x0702"
definition SLAVE :: nat where "SLAVE = 0x0703"
definition SLAVE_FORCE :: nat where "SLAVE_FORCE = 0x0706"
definition TENBIT :: nat where "TENBIT = 0x0704"
definition FUNCS :: nat where "FUNCS = 0x0705"
definition RDWR :: nat where "RDWR = 0x0707"
definition PEC :: nat where "PEC = 0x0708"
definition SMBUS :: nat where "SMBUS = 0x0720"

subsection \<open>Errors\<close>

text \<open>
  The three sentinel errors of the package, the errno that the ioctl system call reports
  (\<^verbatim>\<open>syscall.Errno\<close>, never 0 as an error), and the errors of the \<^verbatim>\<open>os\<close> file layer,
  which the package passes on unchanged and which are told apart here by a number.
\<close>

type_synonym oserr = nat

datatype error = ErrInvalid | ErrClosed | ErrTruncated | Errno nat | OSError oserr

text \<open>
  A Go call either returns or panics. Only the integer helpers can panic (a method call
  on a nil \<^verbatim>\<open>binary.ByteOrder\<close> interface, an index out of range in a codec).
\<close>

datatype 'a outcome = Return 'a | Panic

subsection \<open>\<^verbatim>\<open>encoding/binary\<close>: the two byte orders\<close>

type_synonym byte = "8 word"

datatype ByteOrder = LittleEndian | BigEndian

text \<open>
  The decoders index the slice (\<^verbatim>\<open>b[0]\<close>, \<^verbatim>\<open>b[1]\<close>, ...) and panic when it is too
  short; the encoders store into it and panic likewise. \<open>None\<close> is that panic.
\<close>

definition Uint16 :: "ByteOrder \<Rightarrow> byte list \<Rightarrow> 16 word option" where
  "Uint16 e b =
     (if length b < 2 then None
      else case e of
        LittleEndian \<Rightarrow> Some (ucast (b ! 0) OR push_bit 8 (ucast (b ! 1)))
      | BigEndian \<Rightarrow> Some (ucast (b ! 1) OR push_bit 8 (ucast (b ! 0))))"

definition PutUint16 :: "ByteOrder \<Rightarrow> byte list \<Rightarrow> 16 word \<Rightarrow> byte list option" where
  "PutUint16 e b v =
     (if length b < 2 then None
      else case e of
        LittleEndian \<Rightarrow> Some (b[0 := ucast v, 1 := ucast (drop_bit 8 v)])
      | BigEndian \<Rightarrow> Some (b[0 := ucast (drop_bit 8 v), 1 := ucast v]))"

definition Uint32 :: "ByteOrder \<Rightarrow> byte list \<Rightarrow> 32 word option" where
  "Uint32 e b =
     (if length b < 4 then None
      else case e of
        LittleEndian \<Rightarrow>
          Some (ucast (b ! 0) OR push_bit 8 (ucast (b ! 1)) OR push_bit 16 (ucast (b ! 2))
                OR push_bit 24 (ucast (b ! 3)))
      | BigEndian \<Rightarrow>
          Some (ucast (b ! 3) OR push_bit 8 (ucast (b ! 2)) OR push_bit 16 (ucast (b ! 1))
                OR push_bit 24 (ucast (b ! 0))))"

definition PutUint32 :: "ByteOrder \<Rightarrow> byte list \<Rightarrow> 32 word \<Rightarrow> byte list option" where
  "PutUint32 e b v =
     (if length b < 4 then None
      else case e of
        LittleEndian \<Rightarrow>
          Some (b[0 := ucast v, 1 := ucast (drop_bit 8 v), 2 := ucast (drop_bit 16 v),
                  3 := ucast (drop_bit 24 v)])
      | BigEndian \<Rightarrow>
          Some (b[0 := ucast (drop_bit 24 v), 1 := ucast (drop_bit 16 v),
                  2 := ucast (drop_bit 8 v), 3 := ucast v]))"

definition Uint64 :: "ByteOrder \<Rightarrow> byte list \<Rightarrow> 64 word option" where
  "Uint64 e b =
     (if length b < 8 then None
      else case e of
        LittleEndian \<Rightarrow>
          Some (ucast (b ! 0) OR push_bit 8 (ucast (b ! 1)) OR push_bit 16 (ucast (b ! 2))
                OR push_bit 24 (ucast (b ! 3)) OR push_bit 32 (ucast (b ! 4))
                OR push_bit 40 (ucast (b ! 5)) OR push_bit 48 (ucast (b ! 6))
                OR push_bit 56 (ucast (b ! 7)))
      | BigEndian \<Rightarrow>
          Some (ucast (b ! 7) OR push_bit 8 (ucast (b ! 6)) OR push_bit 16 (ucast (b ! 5))
                OR push_bit 24 (ucast (b ! 4)) OR push_bit 32 (ucast (b ! 3))
                OR push_bit 40 (ucast (b ! 2)) OR push_bit 48 (ucast (b ! 1))
                OR push_bit 56 (ucast (b ! 0))))"

definition PutUint64 :: "ByteOrder \<Rightarrow> byte list \<Rightarrow> 64 word \<Rightarrow> byte list option" where
  "PutUint64 e b v =
     (if length b < 8 then None
      else case e of
        LittleEndian \<Rightarrow>
          Some (b[0 := ucast v, 1 := ucast (drop_bit 8 v), 2 := ucast (drop_bit 16 v),
                  3 := ucast (drop_bit 24 v), 4 := ucast (drop_bit 32 v),
                  5 := ucast (drop_bit 40 v), 6 := ucast (drop_bit 48 v),
                  7 := ucast (drop_bit 56 v)])
      | BigEndian \<Rightarrow>
          Some (b[0 := ucast (drop_bit 56 v), 1 := ucast (drop_bit 48 v),
                  2 := ucast (drop_bit 40 v), 3 := ucast (drop_bit 32 v),
                  4 := ucast (drop_bit 24 v), 5 := ucast (drop_bit 16 v),
                  6 := ucast (drop_bit 8 v), 7 := ucast v]))"

subsection \<open>The operating system as a parameter\<close>

text \<open>
  An \<^verbatim>\<open>*os.File\<close> is named by a number. The record \<open>'w os\<close> says how the world
  \<open>'w\<close> answers each service: \<^verbatim>\<open>os.OpenFile\<close>, \<^verbatim>\<open>File.SyscallConn\<close>,
  \<^verbatim>\<open>RawConn.Control\<close> (\<open>Some e\<close>: it fails and does not run its callback), the ioctl
  system call (the errno, 0 for success), \<^verbatim>\<open>File.Close\<close>, \<^verbatim>\<open>File.Read\<close> (the bytes
  delivered for a buffer of the given length) and \<^verbatim>\<open>File.Write\<close> (the count reported).
  Nothing is assumed about the answers.
\<close>

type_synonym osfile = nat

record 'w os =
  os_OpenFile :: "string \<Rightarrow> 'w \<Rightarrow> (oserr + osfile) \<times> 'w"
  os_SyscallConn :: "osfile \<Rightarrow> 'w \<Rightarrow> oserr option \<times> 'w"
  os_Control :: "osfile \<Rightarrow> 'w \<Rightarrow> oserr option \<times> 'w"
  os_ioctl :: "osfile \<Rightarrow> nat \<Rightarrow> nat \<Rightarrow> 'w \<Rightarrow> nat \<times> 'w"
  os_Close :: "osfile \<Rightarrow> 'w \<Rightarrow> oserr option \<times> 'w"
  os_Read :: "osfile \<Rightarrow> nat \<Rightarrow> 'w \<Rightarrow> (byte list \<times> oserr option) \<times> 'w"
  os_Write :: "osfile \<Rightarrow> byte list \<Rightarrow> 'w \<Rightarrow> (nat \<times> oserr option) \<times> 'w"

text \<open>Every call to a service is logged with its arguments and its answer, oldest first.\<close>

datatype event =
    EvOpen string "oserr + osfile"
  | EvSyscallConn osfile "oserr option"
  | EvControl osfile "oserr option"
  | EvIoctl osfile nat nat nat
  | EvClose osfile "oserr option"
  | EvRead osfile nat nat "oserr option"
  | EvWrite osfile "byte list" nat "oserr option"

record 'w sys =
  world :: 'w
  calls :: "event list"

definition OpenFile :: "'w os \<Rightarrow> string \<Rightarrow> 'w sys \<Rightarrow> (oserr + osfile) \<times> 'w sys" where
  "OpenFile os name s =
     (case os_OpenFile os name (world s) of
        (r, w) \<Rightarrow> (r, \<lparr>world = w, calls = calls s @ [EvOpen name r]\<rparr>))"

definition SyscallConn :: "'w os \<Rightarrow> osfile \<Rightarrow> 'w sys \<Rightarrow> oserr option \<times> 'w sys" where
  "SyscallConn os fh s =
     (case os_SyscallConn os fh (world s) of
        (r, w) \<Rightarrow> (r, \<lparr>world = w, calls = calls s @ [EvSyscallConn fh r]\<rparr>))"

definition Control :: "'w os \<Rightarrow> osfile \<Rightarrow> 'w sys \<Rightarrow> oserr option \<times> 'w sys" where
  "Control os fh s =
     (case os_Control os fh (world s) of
        (r, w) \<Rightarrow> (r, \<lparr>world = w, calls = calls s @ [EvControl fh r]\<rparr>))"

definition Syscall_IOCTL :: "'w os \<Rightarrow> osfile \<Rightarrow> nat \<Rightarrow> nat \<Rightarrow> 'w sys \<Rightarrow> nat \<times> 'w sys" where
  "Syscall_IOCTL os fh cmd arg s =
     (case os_ioctl os fh cmd arg (world s) of
        (eno, w) \<Rightarrow> (eno, \<lparr>world = w, calls = calls s @ [EvIoctl fh cmd arg eno]\<rparr>))"

definition FileClose :: "'w os \<Rightarrow> osfile \<Rightarrow> 'w sys \<Rightarrow> oserr option \<times> 'w sys" where
  "FileClose os fh s =
     (case os_Close os fh (world s) of
        (r, w) \<Rightarrow> (r, \<lparr>world = w, calls = calls s @ [EvClose fh r]\<rparr>))"

text \<open>
  \<^verbatim>\<open>File.Read(data)\<close> fills a prefix of the caller's buffer and returns its length: at
  most \<open>length data\<close> bytes of what the device delivers.
\<close>

definition FileRead ::
  "'w os \<Rightarrow> osfile \<Rightarrow> byte list \<Rightarrow> 'w sys \<Rightarrow> (nat \<times> oserr option \<times> byte list) \<times> 'w sys" where
  "FileRead os fh data s =
     (case os_Read os fh (length data) (world s) of
        ((bs, r), w) \<Rightarrow>
          (let got = take (length data) bs; n = length got
           in ((n, r, got @ drop n data),
               \<lparr>world = w, calls = calls s @ [EvRead fh (length data) n r]\<rparr>)))"

definition FileWrite ::
  "'w os \<Rightarrow> osfile \<Rightarrow> byte list \<Rightarrow> 'w sys \<Rightarrow> (nat \<times> oserr option) \<times> 'w sys" where
  "FileWrite os fh data s =
     (case os_Write os fh data (world s) of
        ((n, r), w) \<Rightarrow> ((n, r), \<lparr>world = w, calls = calls s @ [EvWrite fh data n r]\<rparr>))"

subsection \<open>The connection\<close>

text \<open>
  \<^verbatim>\<open>Conn\<close> as the struct has it; \<open>f\<close> is the \<^verbatim>\<open>*os.File\<close> (\<open>None\<close> for nil) and
  \<open>endian\<close> the \<^verbatim>\<open>binary.ByteOrder\<close> interface value (\<open>None\<close> for the nil interface,
  the zero value of the field). The mutex \<^verbatim>\<open>mu\<close> is left out: the embedding runs one
  call at a time, and every method that locks it unlocks it before it returns. A
  \<^verbatim>\<open>*Conn\<close> is a \<open>Conn option\<close>, \<open>None\<close> for the nil pointer.
\<close>

record Conn =
  bus :: string
  addr :: nat
  f :: "osfile option"
  endian :: "ByteOrder option"

text \<open>\<^verbatim>\<open>func (c *Conn) ioctl(cmd uintptr, arg uintptr) error\<close>\<close>

definition ioctl :: "'w os \<Rightarrow> Conn option \<Rightarrow> nat \<Rightarrow> nat \<Rightarrow> 'w sys \<Rightarrow> error option \<times> 'w sys" where
  "ioctl os c cmd arg s =
     (case c of
        None \<Rightarrow> (Some ErrInvalid, s)
      | Some cn \<Rightarrow>
          (case f cn of
             None \<Rightarrow> (Some ErrClosed, s)
           | Some fh \<Rightarrow>
               (case SyscallConn os fh s of
                  (Some e, s1) \<Rightarrow> (Some (OSError e), s1)
                | (None, s1) \<Rightarrow>
                    (case Control os fh s1 of
                       (Some e, s2) \<Rightarrow> (None, s2)
                     | (None, s2) \<Rightarrow>
                         (case Syscall_IOCTL os fh cmd arg s2 of
                            (eno, s3) \<Rightarrow>
                              (if eno \<noteq> 0 then (Some (Errno eno), s3) else (None, s3)))))))"

text \<open>\<^verbatim>\<open>func (c *Conn) Close() error\<close>; the second component is the connection afterwards.\<close>

definition Close :: "'w os \<Rightarrow> Conn option \<Rightarrow> 'w sys \<Rightarrow> (error option \<times> Conn option) \<times> 'w sys" where
  "Close os c s =
     (case c of
        None \<Rightarrow> ((Some ErrInvalid, None), s)
      | Some cn \<Rightarrow>
          (case f cn of
             None \<Rightarrow> ((Some ErrClosed, Some cn), s)
           | Some fh \<Rightarrow>
               (case FileClose os fh s of
                  (err, s1) \<Rightarrow> ((map_option OSError err, Some (cn\<lparr>f := None\<rparr>)), s1))))"

text \<open>
  \<^verbatim>\<open>func NewConn(bus string, addr uint, tenBit bool, endian binary.ByteOrder) (*Conn, error)\<close>.
  The struct literal sets \<^verbatim>\<open>bus\<close>, \<^verbatim>\<open>addr\<close> and \<^verbatim>\<open>f\<close>; the parameter
  \<open>en\<close> is not used in the body.
\<close>

definition NewConn ::
  "'w os \<Rightarrow> string \<Rightarrow> nat \<Rightarrow> bool \<Rightarrow> ByteOrder option \<Rightarrow> 'w sys
     \<Rightarrow> (Conn option \<times> error option) \<times> 'w sys" where
  "NewConn os name a tenBit en s =
     (case OpenFile os name s of
        (Inl e, s1) \<Rightarrow> ((None, Some (OSError e)), s1)
      | (Inr fh, s1) \<Rightarrow>
          (let c = \<lparr>bus = name, addr = a, f = Some fh, endian = None\<rparr> in
           case (if tenBit then ioctl os (Some c) TENBIT 1 s1
                 else ioctl os (Some c) TENBIT 0 s1) of
             (err1, s2) \<Rightarrow>
               (case (if err1 = None then ioctl os (Some c) SLAVE a s2 else (err1, s2)) of
                  (err, s3) \<Rightarrow>
                    (if err \<noteq> None then
                       (case Close os (Some c) s3 of (r, s4) \<Rightarrow> ((None, err), s4))
                     else ((Some c, None), s3)))))"

text \<open>
  \<^verbatim>\<open>func (c *Conn) Read(data []byte) (int, error)\<close>; the third component is the
  caller's buffer afterwards.
\<close>

definition Read ::
  "'w os \<Rightarrow> Conn option \<Rightarrow> byte list \<Rightarrow> 'w sys \<Rightarrow> (nat \<times> error option \<times> byte list) \<times> 'w sys" where
  "Read os c data s =
     (case c of
        None \<Rightarrow> ((0, Some ErrInvalid, data), s)
      | Some cn \<Rightarrow>
          (case f cn of
             None \<Rightarrow> ((0, Some ErrClosed, data), s)
           | Some fh \<Rightarrow>
               (case FileRead os fh data s of
                  ((n, err, data'), s1) \<Rightarrow> ((n, map_option OSError err, data'), s1))))"

text \<open>\<^verbatim>\<open>func (c *Conn) Write(data []byte) (int, error)\<close>\<close>

definition Write ::
  "'w os \<Rightarrow> Conn option \<Rightarrow> byte list \<Rightarrow> 'w sys \<Rightarrow> (nat \<times> error option) \<times> 'w sys" where
  "Write os c data s =
     (case c of
        None \<Rightarrow> ((0, Some ErrInvalid), s)
      | Some cn \<Rightarrow>
          (case f cn of
             None \<Rightarrow> ((0, Some ErrClosed), s)
           | Some fh \<Rightarrow>
               (case FileWrite os fh data s of
                  ((n, err), s1) \<Rightarrow> ((n, map_option OSError err), s1))))"

text \<open>
  The integer helpers. \<open>deref_endian\<close> is the evaluation of \<^verbatim>\<open>c.endian\<close> up to the
  method call on it: it panics on a nil \<^verbatim>\<open>c\<close> and on a nil interface value.
\<close>

definition deref_endian :: "Conn option \<Rightarrow> ByteOrder option" where
  "deref_endian c = (case c of None \<Rightarrow> None | Some cn \<Rightarrow> endian cn)"

text \<open>\<^verbatim>\<open>func (c *Conn) ReadUint16() (uint16, error)\<close>\<close>

definition ReadUint16 ::
  "'w os \<Rightarrow> Conn option \<Rightarrow> 'w sys \<Rightarrow> (16 word \<times> error option) outcome \<times> 'w sys" where
  "ReadUint16 os c s =
     (let d = replicate 2 0 in
      case Read os c d s of
        ((n, err, d'), s1) \<Rightarrow>
          (if err \<noteq> None then (Return (0, err), s1)
           else if n \<noteq> length d' then (Return (0, Some ErrTruncated), s1)
           else (case deref_endian c of
                   None \<Rightarrow> (Panic, s1)
                 | Some e \<Rightarrow>
                     (case Uint16 e d' of
                        None \<Rightarrow> (Panic, s1)
                      | Some v \<Rightarrow> (Return (v, None), s1)))))"

text \<open>\<^verbatim>\<open>func (c *Conn) WriteUint16(val uint16) error\<close>\<close>

definition WriteUint16 ::
  "'w os \<Rightarrow> Conn option \<Rightarrow> 16 word \<Rightarrow> 'w sys \<Rightarrow> error option outcome \<times> 'w sys" where
  "WriteUint16 os c val s =
     (if c = None then (Return (Some ErrInvalid), s)
      else
        (let d = replicate 2 0 in
         case deref_endian c of
           None \<Rightarrow> (Panic, s)
         | Some e \<Rightarrow>
             (case PutUint16 e d val of
                None \<Rightarrow> (Panic, s)
              | Some d' \<Rightarrow>
                  (case Write os c d' s of
                     ((n, err), s1) \<Rightarrow>
                       (if err \<noteq> None then (Return err, s1)
                        else if n \<noteq> length d' then (Return (Some ErrTruncated), s1)
                        else (Return None, s1))))))"

text \<open>\<^verbatim>\<open>func (c *Conn) ReadUint32() (uint32, error)\<close>\<close>

definition ReadUint32 ::
  "'w os \<Rightarrow> Conn option \<Rightarrow> 'w sys \<Rightarrow> (32 word \<times> error option) outcome \<times> 'w sys" where
  "ReadUint32 os c s =
     (let d = replicate 4 0 in
      case Read os c d s of
        ((n, err, d'), s1) \<Rightarrow>
          (if err \<noteq> None then (Return (0, err), s1)
           else if n \<noteq> length d' then (Return (0, Some ErrTruncated), s1)
           else (case deref_endian c of
                   None \<Rightarrow> (Panic, s1)
                 | Some e \<Rightarrow>
                     (case Uint32 e d' of
                        None \<Rightarrow> (Panic, s1)
                      | Some v \<Rightarrow> (Return (v, None), s1)))))"

text \<open>\<^verbatim>\<open>func (c *Conn) WriteUint32(val uint32) error\<close>\<close>

definition WriteUint32 ::
  "'w os \<Rightarrow> Conn option \<Rightarrow> 32 word \<Rightarrow> 'w sys \<Rightarrow> error option outcome \<times> 'w sys" where
  "WriteUint32 os c val s =
     (if c = None then (Return (Some ErrInvalid), s)
      else
        (let d = replicate 4 0 in
         case deref_endian c of
           None \<Rightarrow> (Panic, s)
         | Some e \<Rightarrow>
             (case PutUint32 e d val of
                None \<Rightarrow> (Panic, s)
              | Some d' \<Rightarrow>
                  (case Write os c d' s of
                     ((n, err), s1) \<Rightarrow>
                       (if err \<noteq> None then (Return err, s1)
                        else if n \<noteq> length d' then (Return (Some ErrTruncated), s1)
                        else (Return None, s1))))))"

text \<open>\<^verbatim>\<open>func (c *Conn) ReadUint64() (uint64, error)\<close>\<close>

definition ReadUint64 ::
  "'w os \<Rightarrow> Conn option \<Rightarrow> 'w sys \<Rightarrow> (64 word \<times> error option) outcome \<times> 'w sys" where
  "ReadUint64 os c s =
     (let d = replicate 8 0 in
      case Read os c d s of
        ((n, err, d'), s1) \<Rightarrow>
          (if err \<noteq> None then (Return (0, err), s1)
           else if n \<noteq> length d' then (Return (0, Some ErrTruncated), s1)
           else (case deref_endian c of
                   None \<Rightarrow> (Panic, s1)
                 | Some e \<Rightarrow>
                     (case Uint64 e d' of
                        None \<Rightarrow> (Panic, s1)
                      | Some v \<Rightarrow> (Return (v, None), s1)))))"

text \<open>\<^verbatim>\<open>func (c *Conn) WriteUint64(val uint64) error\<close>\<close>

definition WriteUint64 ::
  "'w os \<Rightarrow> Conn option \<Rightarrow> 64 word \<Rightarrow> 'w sys \<Rightarrow> error option outcome \<times> 'w sys" where
  "WriteUint64 os c val s =
     (if c = None then (Return (Some ErrInvalid), s)
      else
        (let d = replicate 8 0 in
         case deref_endian c of
           None \<Rightarrow> (Panic, s)
         | Some e \<Rightarrow>
             (case PutUint64 e d val of
                None \<Rightarrow> (Panic, s)
              | Some d' \<Rightarrow>
                  (case Write os c d' s of
                     ((n, err), s1) \<Rightarrow>
                       (if err \<noteq> None then (Return err, s1)
                        else if n \<noteq> length d' then (Return (Some ErrTruncated), s1)
                        else (Return None, s1))))))"

subsection \<open>Reading the log\<close>

text \<open>The calls an operation made: what the log gained between its start and its end.\<close>

definition new_calls :: "'w sys \<Rightarrow> 'w sys \<Rightarrow> event list" where
  "new_calls s s' = drop (length (calls s)) (calls s')"

text \<open>The error a logged call ended with, as the package would hand it on.\<close>

fun failure :: "event \<Rightarrow> error option" where
  "failure (EvOpen name r) = (case r of Inl e \<Rightarrow> Some (OSError e) | Inr fh \<Rightarrow> None)"
| "failure (EvSyscallConn fh r) = map_option OSError r"
| "failure (EvControl fh r) = map_option OSError r"
| "failure (EvIoctl fh cmd arg eno) = (if eno = 0 then None else Some (Errno eno))"
| "failure (EvClose fh r) = map_option OSError r"
| "failure (EvRead fh k n r) = map_option OSError r"
| "failure (EvWrite fh d n r) = map_option OSError r"

fun is_Control :: "event \<Rightarrow> bool" where
  "is_Control (EvControl fh r) = True"
| "is_Control ev = False"

text \<open>The first failure in a run of calls, calls to \<^verbatim>\<open>RawConn.Control\<close> set aside.\<close>

fun first_failure :: "event list \<Rightarrow> error option" where
  "first_failure [] = None"
| "first_failure (ev # evs) =
     (if is_Control ev then first_failure evs
      else case failure ev of Some e \<Rightarrow> Some e | None \<Rightarrow> first_failure evs)"

subsection \<open>Two devices to run the package on\<close>

text \<open>
  A loopback device: every service succeeds, a write stores its bytes and a read returns
  the bytes stored. The world is the stored bytes.
\<close>

definition loopback :: "byte list os" where
  "loopback =
     \<lparr>os_OpenFile = (\<lambda>name w. (Inr 3, w)),
      os_SyscallConn = (\<lambda>fh w. (None, w)),
      os_Control = (\<lambda>fh w. (None, w)),
      os_ioctl = (\<lambda>fh cmd arg w. (0, w)),
      os_Close = (\<lambda>fh w. (None, w)),
      os_Read = (\<lambda>fh n w. ((take n w, None), w)),
      os_Write = (\<lambda>fh bs w. ((length bs, None), bs))\<rparr>"

text \<open>
  A faulty device: a transfer moves at most \<open>k\<close> bytes and reports \<open>terr\<close>, an
  ioctl ends with the errno that \<open>bad\<close> lists for its command (0 when it lists none),
  and closing the file reports \<open>cerr\<close>.
\<close>

definition faulty ::
  "nat \<Rightarrow> oserr option \<Rightarrow> (nat \<times> nat) list \<Rightarrow> oserr option \<Rightarrow> byte list os" where
  "faulty k terr bad cerr =
     \<lparr>os_OpenFile = (\<lambda>name w. (Inr 3, w)),
      os_SyscallConn = (\<lambda>fh w. (None, w)),
      os_Control = (\<lambda>fh w. (None, w)),
      os_ioctl = (\<lambda>fh cmd arg w. (case map_of bad cmd of None \<Rightarrow> 0 | Some eno \<Rightarrow> eno, w)),
      os_Close = (\<lambda>fh w. (cerr, w)),
      os_Read = (\<lambda>fh n w. ((take (min k n) w, terr), w)),
      os_Write = (\<lambda>fh bs w. ((min k (length bs), terr), take k bs))\<rparr>"

definition boot :: "byte list sys" where
  "boot = \<lparr>world = [], calls = []\<rparr>"

text \<open>
  A connection to the file that the two devices hand out, with a byte order: what a struct
  literal inside the package builds.
\<close>

definition sensor :: Conn where
  "sensor = \<lparr>bus = ''/dev/i2c-1'', addr = 0x76, f = Some 3, endian = Some LittleEndian\<rparr>"

text \<open>
  The connection that \<^verbatim>\<open>NewConn\<close> builds on either device for bus \<^verbatim>\<open>/dev/i2c-1\<close>
  and address \<^verbatim>\<open>0x76\<close>, and the state right after the device file was opened.
\<close>

definition made :: Conn where
  "made = \<lparr>bus = ''/dev/i2c-1'', addr = 0x76, f = Some 3, endian = None\<rparr>"

definition opened :: "byte list sys" where
  "opened = \<lparr>world = [], calls = [EvOpen ''/dev/i2c-1'' (Inr 3)]\<rparr>"

section \<open>Properties\<close>

subsection \<open>Evaluating the package on a concrete device\<close>

lemma zeros2: "replicate 2 (0::byte) = [0, 0]"
  by (simp add: numeral_eq_Suc)

lemma zeros4: "replicate 4 (0::byte) = [0, 0, 0, 0]"
  by (simp add: numeral_eq_Suc)

lemma zeros8: "replicate 8 (0::byte) = [0, 0, 0, 0, 0, 0, 0, 0]"
  by (simp add: numeral_eq_Suc)

lemmas svc_defs = OpenFile_def SyscallConn_def Control_def Syscall_IOCTL_def FileClose_def
  FileRead_def FileWrite_def

lemmas run_defs = svc_defs ioctl_def Close_def NewConn_def Read_def Write_def deref_endian_def
  ReadUint16_def ReadUint32_def ReadUint64_def WriteUint16_def WriteUint32_def WriteUint64_def
  PutUint16_def PutUint32_def PutUint64_def Uint16_def Uint32_def Uint64_def
  loopback_def faulty_def boot_def sensor_def made_def opened_def new_calls_def
  TENBIT_def SLAVE_def
  zeros2 zeros4 zeros8 Let_def

subsection \<open>The nil connection\<close>

lemma Close_nil: "Close os None s = ((Some ErrInvalid, None), s)"
  by (simp add: Close_def)

lemma Read_nil: "Read os None data s = ((0, Some ErrInvalid, data), s)"
  by (simp add: Read_def)

lemma Write_nil: "Write os None data s = ((0, Some ErrInvalid), s)"
  by (simp add: Write_def)

lemma ReadUint_nil:
  "ReadUint16 os None s = (Return (0, Some ErrInvalid), s)"
  "ReadUint32 os None s = (Return (0, Some ErrInvalid), s)"
  "ReadUint64 os None s = (Return (0, Some ErrInvalid), s)"
  by (simp_all add: ReadUint16_def ReadUint32_def ReadUint64_def Read_def)

lemma WriteUint_nil:
  "WriteUint16 os None v16 s = (Return (Some ErrInvalid), s)"
  "WriteUint32 os None v32 s = (Return (Some ErrInvalid), s)"
  "WriteUint64 os None v64 s = (Return (Some ErrInvalid), s)"
  by (simp_all add: WriteUint16_def WriteUint32_def WriteUint64_def)

text \<open>
  Claim C2. Every operation of the public interface, called on the nil connection,
  returns the invalid-connection error. It returns (it does not panic), and the state it
  leaves is the state it found: no service was called, so no file was touched.
\<close>

theorem nil_Conn_returns_ErrInvalid:
  "Close os None s = ((Some ErrInvalid, None), s)
   \<and> Read os None data s = ((0, Some ErrInvalid, data), s)
   \<and> Write os None data s = ((0, Some ErrInvalid), s)
   \<and> ReadUint16 os None s = (Return (0, Some ErrInvalid), s)
   \<and> ReadUint32 os None s = (Return (0, Some ErrInvalid), s)
   \<and> ReadUint64 os None s = (Return (0, Some ErrInvalid), s)
   \<and> WriteUint16 os None v16 s = (Return (Some ErrInvalid), s)
   \<and> WriteUint32 os None v32 s = (Return (Some ErrInvalid), s)
   \<and> WriteUint64 os None v64 s = (Return (Some ErrInvalid), s)"
  by (simp add: Close_nil Read_nil Write_nil ReadUint_nil WriteUint_nil)

subsection \<open>What the calls in the log say about a transfer\<close>

lemma PutUint16_length: "PutUint16 e b v = Some d \<Longrightarrow> length d = length b"
  by (auto simp add: PutUint16_def split: if_splits ByteOrder.splits)

lemma PutUint32_length: "PutUint32 e b v = Some d \<Longrightarrow> length d = length b"
  by (auto simp add: PutUint32_def split: if_splits ByteOrder.splits)

lemma PutUint64_length: "PutUint64 e b v = Some d \<Longrightarrow> length d = length b"
  by (auto simp add: PutUint64_def split: if_splits ByteOrder.splits)

lemma new_calls_append [simp]:
  "new_calls s \<lparr>world = w, calls = calls s @ evs\<rparr> = evs"
  by (simp add: new_calls_def)

lemma new_calls_same [simp]: "new_calls s s = []"
  by (simp add: new_calls_def)

lemma Read_cases:
  assumes "Read os c data s = ((n, err, d'), s')"
  shows "length d' = length data"
    and "(new_calls s s' = [] \<and> err \<noteq> None) \<or>
         (\<exists>fh r. new_calls s s' = [EvRead fh (length data) n r] \<and> err = map_option OSError r)"
  using assms
  by (auto simp add: Read_def FileRead_def Let_def split: option.splits prod.splits)

lemma Write_cases:
  assumes "Write os c data s = ((n, err), s')"
  shows "(new_calls s s' = [] \<and> err \<noteq> None) \<or>
         (\<exists>fh r. new_calls s s' = [EvWrite fh data n r] \<and> err = map_option OSError r)"
  using assms
  by (auto simp add: Write_def FileWrite_def split: option.splits prod.splits)

subsection \<open>Short transfers\<close>

lemma ReadUint16_short:
  assumes "EvRead fh k n None \<in> set (new_calls s (snd (ReadUint16 os c s)))" and "n < 2"
  shows "fst (ReadUint16 os c s) = Return (0, Some ErrTruncated)"
proof -
  obtain m err d' s' where R: "Read os c (replicate 2 0) s = ((m, err, d'), s')"
    by (metis surj_pair)
  have s': "snd (ReadUint16 os c s) = s'"
    by (simp add: ReadUint16_def R split: option.splits)
  from Read_cases [OF R] assms have "err = None" "m = n" "length d' = 2"
    by (auto simp add: s')
  with assms show ?thesis
    by (simp add: ReadUint16_def R)
qed

lemma ReadUint32_short:
  assumes "EvRead fh k n None \<in> set (new_calls s (snd (ReadUint32 os c s)))" and "n < 4"
  shows "fst (ReadUint32 os c s) = Return (0, Some ErrTruncated)"
proof -
  obtain m err d' s' where R: "Read os c (replicate 4 0) s = ((m, err, d'), s')"
    by (metis surj_pair)
  have s': "snd (ReadUint32 os c s) = s'"
    by (simp add: ReadUint32_def R split: option.splits)
  from Read_cases [OF R] assms have "err = None" "m = n" "length d' = 4"
    by (auto simp add: s')
  with assms show ?thesis
    by (simp add: ReadUint32_def R)
qed

lemma ReadUint64_short:
  assumes "EvRead fh k n None \<in> set (new_calls s (snd (ReadUint64 os c s)))" and "n < 8"
  shows "fst (ReadUint64 os c s) = Return (0, Some ErrTruncated)"
proof -
  obtain m err d' s' where R: "Read os c (replicate 8 0) s = ((m, err, d'), s')"
    by (metis surj_pair)
  have s': "snd (ReadUint64 os c s) = s'"
    by (simp add: ReadUint64_def R split: option.splits)
  from Read_cases [OF R] assms have "err = None" "m = n" "length d' = 8"
    by (auto simp add: s')
  with assms show ?thesis
    by (simp add: ReadUint64_def R)
qed

lemma WriteUint16_short:
  assumes "EvWrite fh d n None \<in> set (new_calls s (snd (WriteUint16 os c v s)))" and "n < 2"
  shows "fst (WriteUint16 os c v s) = Return (Some ErrTruncated)"
proof (cases "c = None \<or> deref_endian c = None
    \<or> PutUint16 (the (deref_endian c)) (replicate 2 0) v = None")
  case True
  then have "snd (WriteUint16 os c v s) = s"
    by (auto simp add: WriteUint16_def split: option.splits)
  with assms show ?thesis by simp
next
  case False
  then obtain e d' where e: "c \<noteq> None" "deref_endian c = Some e"
      "PutUint16 e (replicate 2 0) v = Some d'"
    by auto
  obtain m err s' where W: "Write os c d' s = ((m, err), s')"
    by (metis surj_pair)
  have s': "snd (WriteUint16 os c v s) = s'"
    by (simp add: WriteUint16_def e W)
  from Write_cases [OF W] assms have "err = None" "m = n"
    by (auto simp add: s')
  moreover have "length d' = 2" using PutUint16_length [OF e(3)] by simp
  ultimately show ?thesis using assms
    by (simp add: WriteUint16_def e W)
qed

lemma WriteUint32_short:
  assumes "EvWrite fh d n None \<in> set (new_calls s (snd (WriteUint32 os c v s)))" and "n < 4"
  shows "fst (WriteUint32 os c v s) = Return (Some ErrTruncated)"
proof (cases "c = None \<or> deref_endian c = None
    \<or> PutUint32 (the (deref_endian c)) (replicate 4 0) v = None")
  case True
  then have "snd (WriteUint32 os c v s) = s"
    by (auto simp add: WriteUint32_def split: option.splits)
  with assms show ?thesis by simp
next
  case False
  then obtain e d' where e: "c \<noteq> None" "deref_endian c = Some e"
      "PutUint32 e (replicate 4 0) v = Some d'"
    by auto
  obtain m err s' where W: "Write os c d' s = ((m, err), s')"
    by (metis surj_pair)
  have s': "snd (WriteUint32 os c v s) = s'"
    by (simp add: WriteUint32_def e W)
  from Write_cases [OF W] assms have "err = None" "m = n"
    by (auto simp add: s')
  moreover have "length d' = 4" using PutUint32_length [OF e(3)] by simp
  ultimately show ?thesis using assms
    by (simp add: WriteUint32_def e W)
qed

lemma WriteUint64_short:
  assumes "EvWrite fh d n None \<in> set (new_calls s (snd (WriteUint64 os c v s)))" and "n < 8"
  shows "fst (WriteUint64 os c v s) = Return (Some ErrTruncated)"
proof (cases "c = None \<or> deref_endian c = None
    \<or> PutUint64 (the (deref_endian c)) (replicate 8 0) v = None")
  case True
  then have "snd (WriteUint64 os c v s) = s"
    by (auto simp add: WriteUint64_def split: option.splits)
  with assms show ?thesis by simp
next
  case False
  then obtain e d' where e: "c \<noteq> None" "deref_endian c = Some e"
      "PutUint64 e (replicate 8 0) v = Some d'"
    by auto
  obtain m err s' where W: "Write os c d' s = ((m, err), s')"
    by (metis surj_pair)
  have s': "snd (WriteUint64 os c v s) = s'"
    by (simp add: WriteUint64_def e W)
  from Write_cases [OF W] assms have "err = None" "m = n"
    by (auto simp add: s')
  moreover have "length d' = 8" using PutUint64_length [OF e(3)] by simp
  ultimately show ?thesis using assms
    by (simp add: WriteUint64_def e W)
qed

text \<open>
  Claim C3. When the read that a ReadUintN call makes succeeds with fewer than N/8 bytes,
  the call returns the truncated error with the zero value, not a decoded value; when the
  write that a WriteUintN call makes succeeds with fewer than N/8 bytes reported, the call
  returns the truncated error.
\<close>

theorem short_transfer_is_ErrTruncated:
  "(EvRead fh k n None \<in> set (new_calls s (snd (ReadUint16 os c s))) \<and> n < 2
      \<longrightarrow> fst (ReadUint16 os c s) = Return (0, Some ErrTruncated))
   \<and> (EvRead fh k n None \<in> set (new_calls s (snd (ReadUint32 os c s))) \<and> n < 4
      \<longrightarrow> fst (ReadUint32 os c s) = Return (0, Some ErrTruncated))
   \<and> (EvRead fh k n None \<in> set (new_calls s (snd (ReadUint64 os c s))) \<and> n < 8
      \<longrightarrow> fst (ReadUint64 os c s) = Return (0, Some ErrTruncated))
   \<and> (EvWrite fh d n None \<in> set (new_calls s (snd (WriteUint16 os c x s))) \<and> n < 2
      \<longrightarrow> fst (WriteUint16 os c x s) = Return (Some ErrTruncated))
   \<and> (EvWrite fh d n None \<in> set (new_calls s (snd (WriteUint32 os c y s))) \<and> n < 4
      \<longrightarrow> fst (WriteUint32 os c y s) = Return (Some ErrTruncated))
   \<and> (EvWrite fh d n None \<in> set (new_calls s (snd (WriteUint64 os c z s))) \<and> n < 8
      \<longrightarrow> fst (WriteUint64 os c z s) = Return (Some ErrTruncated))"
  by (intro conjI impI; elim conjE)
    (erule (1) ReadUint16_short ReadUint32_short ReadUint64_short
       WriteUint16_short WriteUint32_short WriteUint64_short)+

text \<open>
  The faulty device moving one byte per transfer: each of the six calls makes its transfer,
  the transfer succeeds short, and the call returns the truncated error.
\<close>

theorem short_transfer_is_ErrTruncated_witness:
  "EvRead 3 2 1 None
     \<in> set (new_calls \<lparr>world = [7, 9], calls = []\<rparr>
          (snd (ReadUint16 (faulty 1 None [] None) (Some sensor) \<lparr>world = [7, 9], calls = []\<rparr>)))
   \<and> fst (ReadUint16 (faulty 1 None [] None) (Some sensor) \<lparr>world = [7, 9], calls = []\<rparr>)
       = Return (0, Some ErrTruncated)
   \<and> EvRead 3 4 1 None
     \<in> set (new_calls \<lparr>world = [7, 9], calls = []\<rparr>
          (snd (ReadUint32 (faulty 1 None [] None) (Some sensor) \<lparr>world = [7, 9], calls = []\<rparr>)))
   \<and> fst (ReadUint32 (faulty 1 None [] None) (Some sensor) \<lparr>world = [7, 9], calls = []\<rparr>)
       = Return (0, Some ErrTruncated)
   \<and> EvRead 3 8 1 None
     \<in> set (new_calls \<lparr>world = [7, 9], calls = []\<rparr>
          (snd (ReadUint64 (faulty 1 None [] None) (Some sensor) \<lparr>world = [7, 9], calls = []\<rparr>)))
   \<and> fst (ReadUint64 (faulty 1 None [] None) (Some sensor) \<lparr>world = [7, 9], calls = []\<rparr>)
       = Return (0, Some ErrTruncated)
   \<and> EvWrite 3 [2, 1] 1 None
     \<in> set (new_calls boot (snd (WriteUint16 (faulty 1 None [] None) (Some sensor) 0x0102 boot)))
   \<and> fst (WriteUint16 (faulty 1 None [] None) (Some sensor) 0x0102 boot) = Return (Some ErrTruncated)
   \<and> EvWrite 3 [2, 1, 0, 0] 1 None
     \<in> set (new_calls boot (snd (WriteUint32 (faulty 1 None [] None) (Some sensor) 0x0102 boot)))
   \<and> fst (WriteUint32 (faulty 1 None [] None) (Some sensor) 0x0102 boot) = Return (Some ErrTruncated)
   \<and> EvWrite 3 [2, 1, 0, 0, 0, 0, 0, 0] 1 None
     \<in> set (new_calls boot (snd (WriteUint64 (faulty 1 None [] None) (Some sensor) 0x0102 boot)))
   \<and> fst (WriteUint64 (faulty 1 None [] None) (Some sensor) 0x0102 boot) = Return (Some ErrTruncated)"
proof -
  have r16: "EvRead 3 2 1 None
     \<in> set (new_calls \<lparr>world = [7, 9], calls = []\<rparr>
          (snd (ReadUint16 (faulty 1 None [] None) (Some sensor) \<lparr>world = [7, 9], calls = []\<rparr>)))"
    by (simp add: run_defs)
  have r32: "EvRead 3 4 1 None
     \<in> set (new_calls \<lparr>world = [7, 9], calls = []\<rparr>
          (snd (ReadUint32 (faulty 1 None [] None) (Some sensor) \<lparr>world = [7, 9], calls = []\<rparr>)))"
    by (simp add: run_defs)
  have r64: "EvRead 3 8 1 None
     \<in> set (new_calls \<lparr>world = [7, 9], calls = []\<rparr>
          (snd (ReadUint64 (faulty 1 None [] None) (Some sensor) \<lparr>world = [7, 9], calls = []\<rparr>)))"
    by (simp add: run_defs)
  have w16: "EvWrite 3 [2, 1] 1 None
     \<in> set (new_calls boot (snd (WriteUint16 (faulty 1 None [] None) (Some sensor) 0x0102 boot)))"
    by (simp add: run_defs)
  have w32: "EvWrite 3 [2, 1, 0, 0] 1 None
     \<in> set (new_calls boot (snd (WriteUint32 (faulty 1 None [] None) (Some sensor) 0x0102 boot)))"
    by (simp add: run_defs)
  have w64: "EvWrite 3 [2, 1, 0, 0, 0, 0, 0, 0] 1 None
     \<in> set (new_calls boot (snd (WriteUint64 (faulty 1 None [] None) (Some sensor) 0x0102 boot)))"
    by (simp add: run_defs)
  from r16 r32 r64 w16 w32 w64 show ?thesis
    using short_transfer_is_ErrTruncated
      [where fh = 3 and k = 2 and n = 1 and s = "\<lparr>world = [7, 9], calls = []\<rparr>"
         and os = "faulty 1 None [] None" and c = "Some sensor"]
      short_transfer_is_ErrTruncated
      [where fh = 3 and k = 4 and n = 1 and s = "\<lparr>world = [7, 9], calls = []\<rparr>"
         and os = "faulty 1 None [] None" and c = "Some sensor"]
      short_transfer_is_ErrTruncated
      [where fh = 3 and k = 8 and n = 1 and s = "\<lparr>world = [7, 9], calls = []\<rparr>"
         and os = "faulty 1 None [] None" and c = "Some sensor"]
      short_transfer_is_ErrTruncated
      [where fh = 3 and d = "[2, 1]" and n = 1 and s = boot
         and os = "faulty 1 None [] None" and c = "Some sensor" and x = "0x0102"]
      short_transfer_is_ErrTruncated
      [where fh = 3 and d = "[2, 1, 0, 0]" and n = 1 and s = boot
         and os = "faulty 1 None [] None" and c = "Some sensor" and y = "0x0102"]
      short_transfer_is_ErrTruncated
      [where fh = 3 and d = "[2, 1, 0, 0, 0, 0, 0, 0]" and n = 1 and s = boot
         and os = "faulty 1 None [] None" and c = "Some sensor" and z = "0x0102"]
    by simp
qed

subsection \<open>The codecs invert each other\<close>

lemma byte_lane:
  fixes v :: "'a::len word"
  shows "take_bit (k + 8) v = take_bit k v OR push_bit k (ucast (ucast (drop_bit k v) :: byte))"
  by (rule bit_word_eqI) (auto simp add: bit_simps)

lemma low_lane:
  fixes v :: "'a::len word"
  shows "ucast (ucast v :: byte) = take_bit 8 v"
  by (rule bit_word_eqI) (auto simp add: bit_simps)

lemma join16:
  fixes v :: "16 word"
  shows "ucast (ucast v :: byte) OR push_bit 8 (ucast (ucast (drop_bit 8 v) :: byte)) = v"
  using byte_lane [of 8 v] by (simp add: low_lane take_bit_word_eq_self)

lemma join32:
  fixes v :: "32 word"
  shows "ucast (ucast v :: byte) OR push_bit 8 (ucast (ucast (drop_bit 8 v) :: byte))
     OR push_bit 16 (ucast (ucast (drop_bit 16 v) :: byte))
     OR push_bit 24 (ucast (ucast (drop_bit 24 v) :: byte)) = v"
  using byte_lane [of 8 v] byte_lane [of 16 v] byte_lane [of 24 v]
  by (simp add: low_lane take_bit_word_eq_self or.assoc)

lemma join64:
  fixes v :: "64 word"
  shows "ucast (ucast v :: byte) OR push_bit 8 (ucast (ucast (drop_bit 8 v) :: byte))
     OR push_bit 16 (ucast (ucast (drop_bit 16 v) :: byte))
     OR push_bit 24 (ucast (ucast (drop_bit 24 v) :: byte))
     OR push_bit 32 (ucast (ucast (drop_bit 32 v) :: byte))
     OR push_bit 40 (ucast (ucast (drop_bit 40 v) :: byte))
     OR push_bit 48 (ucast (ucast (drop_bit 48 v) :: byte))
     OR push_bit 56 (ucast (ucast (drop_bit 56 v) :: byte)) = v"
  using byte_lane [of 8 v] byte_lane [of 16 v] byte_lane [of 24 v] byte_lane [of 32 v]
    byte_lane [of 40 v] byte_lane [of 48 v] byte_lane [of 56 v]
  by (simp add: low_lane take_bit_word_eq_self or.assoc)

lemma codec16:
  "\<exists>d. PutUint16 e (replicate 2 0) v = Some d \<and> length d = 2 \<and> Uint16 e d = Some v"
  by (cases e) (simp_all add: PutUint16_def Uint16_def zeros2 join16)

lemma codec32:
  "\<exists>d. PutUint32 e (replicate 4 0) v = Some d \<and> length d = 4 \<and> Uint32 e d = Some v"
  by (cases e) (simp_all add: PutUint32_def Uint32_def zeros4 join32)

lemma codec64:
  "\<exists>d. PutUint64 e (replicate 8 0) v = Some d \<and> length d = 8 \<and> Uint64 e d = Some v"
  by (cases e) (simp_all add: PutUint64_def Uint64_def zeros8 join64)

subsection \<open>Through the loopback device\<close>

lemma loopback_Write:
  "Write loopback (Some \<lparr>bus = b, addr = a, f = Some fh, endian = en\<rparr>) d s =
     ((length d, None), \<lparr>world = d, calls = calls s @ [EvWrite fh d (length d) None]\<rparr>)"
  by (simp add: Write_def FileWrite_def loopback_def)

lemma loopback_Read:
  "length data = length d \<Longrightarrow>
   Read loopback (Some \<lparr>bus = b, addr = a, f = Some fh, endian = en\<rparr>) data
       \<lparr>world = d, calls = cs\<rparr> =
     ((length d, None, d),
      \<lparr>world = d, calls = cs @ [EvRead fh (length d) (length d) None]\<rparr>)"
  by (simp add: Read_def FileRead_def loopback_def Let_def)

lemma roundtrip16:
  assumes "c = Some \<lparr>bus = b, addr = a, f = Some fh, endian = Some e\<rparr>"
  shows "fst (WriteUint16 loopback c x s) = Return None"
    and "fst (ReadUint16 loopback c (snd (WriteUint16 loopback c x s))) = Return (x, None)"
proof -
  obtain d where d: "PutUint16 e (replicate 2 0) x = Some d" "length d = 2" "Uint16 e d = Some x"
    using codec16 by blast
  have w: "WriteUint16 loopback c x s =
      (Return None, \<lparr>world = d, calls = calls s @ [EvWrite fh d (length d) None]\<rparr>)"
    by (simp add: WriteUint16_def assms deref_endian_def d loopback_Write)
  show "fst (WriteUint16 loopback c x s) = Return None"
    by (simp add: w)
  show "fst (ReadUint16 loopback c (snd (WriteUint16 loopback c x s))) = Return (x, None)"
    by (simp add: w [unfolded assms] ReadUint16_def assms deref_endian_def d loopback_Read)
qed

lemma roundtrip32:
  assumes "c = Some \<lparr>bus = b, addr = a, f = Some fh, endian = Some e\<rparr>"
  shows "fst (WriteUint32 loopback c x s) = Return None"
    and "fst (ReadUint32 loopback c (snd (WriteUint32 loopback c x s))) = Return (x, None)"
proof -
  obtain d where d: "PutUint32 e (replicate 4 0) x = Some d" "length d = 4" "Uint32 e d = Some x"
    using codec32 by blast
  have w: "WriteUint32 loopback c x s =
      (Return None, \<lparr>world = d, calls = calls s @ [EvWrite fh d (length d) None]\<rparr>)"
    by (simp add: WriteUint32_def assms deref_endian_def d loopback_Write)
  show "fst (WriteUint32 loopback c x s) = Return None"
    by (simp add: w)
  show "fst (ReadUint32 loopback c (snd (WriteUint32 loopback c x s))) = Return (x, None)"
    by (simp add: w [unfolded assms] ReadUint32_def assms deref_endian_def d loopback_Read)
qed

lemma roundtrip64:
  assumes "c = Some \<lparr>bus = b, addr = a, f = Some fh, endian = Some e\<rparr>"
  shows "fst (WriteUint64 loopback c x s) = Return None"
    and "fst (ReadUint64 loopback c (snd (WriteUint64 loopback c x s))) = Return (x, None)"
proof -
  obtain d where d: "PutUint64 e (replicate 8 0) x = Some d" "length d = 8" "Uint64 e d = Some x"
    using codec64 by blast
  have w: "WriteUint64 loopback c x s =
      (Return None, \<lparr>world = d, calls = calls s @ [EvWrite fh d (length d) None]\<rparr>)"
    by (simp add: WriteUint64_def assms deref_endian_def d loopback_Write)
  show "fst (WriteUint64 loopback c x s) = Return None"
    by (simp add: w)
  show "fst (ReadUint64 loopback c (snd (WriteUint64 loopback c x s))) = Return (x, None)"
    by (simp add: w [unfolded assms] ReadUint64_def assms deref_endian_def d loopback_Read)
qed

text \<open>
  On a connection to the loopback device whose byte order \<open>e\<close> is set, big or little,
  WriteUintN succeeds and the matching ReadUintN that follows it returns the value written,
  for every 16-, 32- and 64-bit value. Such a connection is a struct literal with the
  \<^verbatim>\<open>endian\<close> field filled in; \<^verbatim>\<open>NewConn\<close> does not build one (see below).
\<close>

lemma loopback_roundtrip:
  "fst (WriteUint16 loopback (Some \<lparr>bus = b, addr = a, f = Some fh, endian = Some e\<rparr>) x s)
     = Return None
   \<and> fst (ReadUint16 loopback (Some \<lparr>bus = b, addr = a, f = Some fh, endian = Some e\<rparr>)
       (snd (WriteUint16 loopback
          (Some \<lparr>bus = b, addr = a, f = Some fh, endian = Some e\<rparr>) x s)))
     = Return (x, None)
   \<and> fst (WriteUint32 loopback (Some \<lparr>bus = b, addr = a, f = Some fh, endian = Some e\<rparr>) y s)
     = Return None
   \<and> fst (ReadUint32 loopback (Some \<lparr>bus = b, addr = a, f = Some fh, endian = Some e\<rparr>)
       (snd (WriteUint32 loopback
          (Some \<lparr>bus = b, addr = a, f = Some fh, endian = Some e\<rparr>) y s)))
     = Return (y, None)
   \<and> fst (WriteUint64 loopback (Some \<lparr>bus = b, addr = a, f = Some fh, endian = Some e\<rparr>) z s)
     = Return None
   \<and> fst (ReadUint64 loopback (Some \<lparr>bus = b, addr = a, f = Some fh, endian = Some e\<rparr>)
       (snd (WriteUint64 loopback
          (Some \<lparr>bus = b, addr = a, f = Some fh, endian = Some e\<rparr>) z s)))
     = Return (z, None)"
  using roundtrip16 [OF refl] roundtrip32 [OF refl] roundtrip64 [OF refl] by simp

subsection \<open>Failures of the underlying calls\<close>

lemma first_failure_append:
  "first_failure (xs @ ys) =
     (case first_failure xs of Some e \<Rightarrow> Some e | None \<Rightarrow> first_failure ys)"
  by (induction xs) (auto split: option.splits)

lemma ioctl_open:
  assumes "f cn = Some fh"
  shows "\<exists>w evs. snd (ioctl os (Some cn) cmd arg s) = \<lparr>world = w, calls = calls s @ evs\<rparr>
           \<and> first_failure evs = fst (ioctl os (Some cn) cmd arg s)"
proof -
  obtain r1 w1 where sc: "os_SyscallConn os fh (world s) = (r1, w1)"
    by (metis surj_pair)
  obtain r2 w2 where ct: "os_Control os fh w1 = (r2, w2)"
    by (metis surj_pair)
  obtain eno w3 where io: "os_ioctl os fh cmd arg w2 = (eno, w3)"
    by (metis surj_pair)
  show ?thesis
    by (cases r1; cases r2; cases "eno = 0")
       (simp_all add: ioctl_def assms svc_defs sc ct io)
qed

lemma Close_open:
  assumes "f cn = Some fh"
  shows "\<exists>w r. Close os (Some cn) s =
           ((map_option OSError r, Some (cn\<lparr>f := None\<rparr>)),
            \<lparr>world = w, calls = calls s @ [EvClose fh r]\<rparr>)
           \<and> os_Close os fh (world s) = (r, w)"
  by (cases "os_Close os fh (world s)") (simp add: Close_def assms FileClose_def)


lemma NewConn_open_failed:
  assumes "OpenFile os name s = (Inl e, s1)"
  shows "NewConn os name a tenBit en s = ((None, Some (OSError e)), s1)"
  by (simp add: NewConn_def assms)

lemma NewConn_opened:
  assumes "OpenFile os name s = (Inr fh, s1)"
    and "c = \<lparr>bus = name, addr = a, f = Some fh, endian = None\<rparr>"
    and "ioctl os (Some c) TENBIT (if tenBit then 1 else 0) s1 = (err1, s2)"
    and "ioctl os (Some c) SLAVE a s2 = (err2, s3)"
  shows "NewConn os name a tenBit en s =
     (if err1 \<noteq> None then ((None, err1), snd (Close os (Some c) s2))
      else if err2 \<noteq> None then ((None, err2), snd (Close os (Some c) s3))
      else ((Some c, None), s3))"
  using assms by (cases tenBit) (auto simp add: NewConn_def split: prod.splits)

lemma OpenFile_calls:
  "\<exists>w. snd (OpenFile os name s) = \<lparr>world = w, calls = calls s @ [EvOpen name (fst (OpenFile os name s))]\<rparr>"
  by (cases "os_OpenFile os name (world s)") (simp add: OpenFile_def)

lemma NewConn_first_failure:
  "snd (fst (NewConn os name a tenBit en s))
     = first_failure (new_calls s (snd (NewConn os name a tenBit en s)))"
proof (cases "fst (OpenFile os name s)")
  case (Inl e)
  obtain w where w: "snd (OpenFile os name s) = \<lparr>world = w, calls = calls s @ [EvOpen name (Inl e)]\<rparr>"
    using OpenFile_calls [of os name s] Inl by auto
  have "OpenFile os name s = (Inl e, \<lparr>world = w, calls = calls s @ [EvOpen name (Inl e)]\<rparr>)"
    using Inl w by (metis prod.collapse)
  from NewConn_open_failed [OF this] show ?thesis by simp
next
  case (Inr fh)
  obtain w where w: "snd (OpenFile os name s) = \<lparr>world = w, calls = calls s @ [EvOpen name (Inr fh)]\<rparr>"
    using OpenFile_calls [of os name s] Inr by auto
  define s1 where "s1 = \<lparr>world = w, calls = calls s @ [EvOpen name (Inr fh)]\<rparr>"
  define c where "c = \<lparr>bus = name, addr = a, f = Some fh, endian = None\<rparr>"
  have fc: "f c = Some fh" by (simp add: c_def)
  have op: "OpenFile os name s = (Inr fh, s1)"
    using Inr w by (metis prod.collapse s1_def)
  obtain err1 s2 where i1: "ioctl os (Some c) TENBIT (if tenBit then 1 else 0) s1 = (err1, s2)"
    by (metis surj_pair)
  obtain err2 s3 where i2: "ioctl os (Some c) SLAVE a s2 = (err2, s3)"
    by (metis surj_pair)
  obtain w2 evs1 where e1: "s2 = \<lparr>world = w2, calls = calls s1 @ evs1\<rparr>" "first_failure evs1 = err1"
    using ioctl_open [OF fc, of os TENBIT "if tenBit then 1 else 0" s1] i1 by auto
  obtain w3 evs2 where e2: "s3 = \<lparr>world = w3, calls = calls s2 @ evs2\<rparr>" "first_failure evs2 = err2"
    using ioctl_open [OF fc, of os SLAVE a s2] i2 by auto
  obtain wa ra where ca: "snd (Close os (Some c) s2) = \<lparr>world = wa, calls = calls s2 @ [EvClose fh ra]\<rparr>"
    using Close_open [OF fc, of os s2] by auto
  obtain wb rb where cb: "snd (Close os (Some c) s3) = \<lparr>world = wb, calls = calls s3 @ [EvClose fh rb]\<rparr>"
    using Close_open [OF fc, of os s3] by auto
  have k2: "calls s2 = calls s @ EvOpen name (Inr fh) # evs1"
    using e1(1) by (simp add: s1_def)
  have k3: "calls s3 = calls s @ EvOpen name (Inr fh) # evs1 @ evs2"
    using e2(1) k2 by simp
  have na: "new_calls s (snd (Close os (Some c) s2)) = EvOpen name (Inr fh) # evs1 @ [EvClose fh ra]"
    by (simp add: new_calls_def ca k2)
  have nb: "new_calls s (snd (Close os (Some c) s3))
      = EvOpen name (Inr fh) # evs1 @ evs2 @ [EvClose fh rb]"
    by (simp add: new_calls_def cb k3)
  have n3: "new_calls s s3 = EvOpen name (Inr fh) # evs1 @ evs2"
    by (simp add: new_calls_def k3)
  note N = NewConn_opened [OF op c_def i1 i2, of en]
  show ?thesis
  proof (cases err1)
    case (Some e)
    then show ?thesis
      using e1(2) by (simp add: N na first_failure_append)
  next
    case None
    note n1 = this
    show ?thesis
    proof (cases err2)
      case (Some e)
      then show ?thesis
        using n1 e1(2) e2(2) by (simp add: N nb first_failure_append)
    next
      case None
      then show ?thesis
        using n1 e1(2) e2(2) by (simp add: N n3 first_failure_append)
    qed
  qed
qed

lemma ioctl_first_failure:
  "first_failure (new_calls s (snd (ioctl os c cmd arg s))) = Some e \<Longrightarrow>
   fst (ioctl os c cmd arg s) = Some e"
proof (cases "c = None \<or> f (the c) = None")
  case True
  then have "snd (ioctl os c cmd arg s) = s"
    by (auto simp add: ioctl_def split: option.splits)
  then show "first_failure (new_calls s (snd (ioctl os c cmd arg s))) = Some e \<Longrightarrow> ?thesis"
    by simp
next
  case False
  then obtain cn fh where c: "c = Some cn" "f cn = Some fh"
    by auto
  from ioctl_open [OF c(2), of os cmd arg s]
  show "first_failure (new_calls s (snd (ioctl os c cmd arg s))) = Some e \<Longrightarrow> ?thesis"
    by (auto simp add: c(1))
qed

lemma Close_first_failure:
  "first_failure (new_calls s (snd (Close os c s))) = Some e \<Longrightarrow>
   fst (fst (Close os c s)) = Some e"
proof (cases "c = None \<or> f (the c) = None")
  case True
  then have "snd (Close os c s) = s"
    by (auto simp add: Close_def split: option.splits)
  then show "first_failure (new_calls s (snd (Close os c s))) = Some e \<Longrightarrow> ?thesis"
    by simp
next
  case False
  then obtain cn fh where c: "c = Some cn" "f cn = Some fh"
    by auto
  from Close_open [OF c(2), of os s]
  show "first_failure (new_calls s (snd (Close os c s))) = Some e \<Longrightarrow> ?thesis"
    by (auto simp add: c(1) split: option.splits)
qed

lemma Read_first_failure:
  assumes "first_failure (new_calls s (snd (Read os c data s))) = Some e"
  shows "fst (snd (fst (Read os c data s))) = Some e"
proof -
  obtain n err d' s' where R: "Read os c data s = ((n, err, d'), s')"
    by (metis surj_pair)
  from Read_cases(2) [OF R] assms show ?thesis
    by (auto simp add: R split: option.splits)
qed

lemma Write_first_failure:
  assumes "first_failure (new_calls s (snd (Write os c data s))) = Some e"
  shows "snd (fst (Write os c data s)) = Some e"
proof -
  obtain n err s' where W: "Write os c data s = ((n, err), s')"
    by (metis surj_pair)
  from Write_cases [OF W] assms show ?thesis
    by (auto simp add: W split: option.splits)
qed

lemma ReadUint16_first_failure:
  assumes "first_failure (new_calls s (snd (ReadUint16 os c s))) = Some e"
  shows "fst (ReadUint16 os c s) = Return (0, Some e)"
proof -
  obtain m err d' s' where R: "Read os c (replicate 2 0) s = ((m, err, d'), s')"
    by (metis surj_pair)
  have s': "snd (ReadUint16 os c s) = s'"
    by (simp add: ReadUint16_def R split: option.splits)
  from Read_first_failure [of s os c "replicate 2 0" e] assms have "err = Some e"
    by (simp add: s' R)
  then show ?thesis
    by (simp add: ReadUint16_def R)
qed

lemma WriteUint16_first_failure:
  assumes "first_failure (new_calls s (snd (WriteUint16 os c v s))) = Some e"
  shows "fst (WriteUint16 os c v s) = Return (Some e)"
proof (cases "c = None \<or> deref_endian c = None
    \<or> PutUint16 (the (deref_endian c)) (replicate 2 0) v = None")
  case True
  then have "snd (WriteUint16 os c v s) = s"
    by (auto simp add: WriteUint16_def split: option.splits)
  with assms show ?thesis by simp
next
  case False
  then obtain en d' where en: "c \<noteq> None" "deref_endian c = Some en"
      "PutUint16 en (replicate 2 0) v = Some d'"
    by auto
  obtain m err s' where W: "Write os c d' s = ((m, err), s')"
    by (metis surj_pair)
  have s': "snd (WriteUint16 os c v s) = s'"
    by (simp add: WriteUint16_def en W)
  from Write_first_failure [of s os c d' e] assms have "err = Some e"
    by (simp add: s' W)
  then show ?thesis
    by (simp add: WriteUint16_def en W)
qed

lemma ReadUint32_first_failure:
  assumes "first_failure (new_calls s (snd (ReadUint32 os c s))) = Some e"
  shows "fst (ReadUint32 os c s) = Return (0, Some e)"
proof -
  obtain m err d' s' where R: "Read os c (replicate 4 0) s = ((m, err, d'), s')"
    by (metis surj_pair)
  have s': "snd (ReadUint32 os c s) = s'"
    by (simp add: ReadUint32_def R split: option.splits)
  from Read_first_failure [of s os c "replicate 4 0" e] assms have "err = Some e"
    by (simp add: s' R)
  then show ?thesis
    by (simp add: ReadUint32_def R)
qed

lemma ReadUint64_first_failure:
  assumes "first_failure (new_calls s (snd (ReadUint64 os c s))) = Some e"
  shows "fst (ReadUint64 os c s) = Return (0, Some e)"
proof -
  obtain m err d' s' where R: "Read os c (replicate 8 0) s = ((m, err, d'), s')"
    by (metis surj_pair)
  have s': "snd (ReadUint64 os c s) = s'"
    by (simp add: ReadUint64_def R split: option.splits)
  from Read_first_failure [of s os c "replicate 8 0" e] assms have "err = Some e"
    by (simp add: s' R)
  then show ?thesis
    by (simp add: ReadUint64_def R)
qed

lemma WriteUint32_first_failure:
  assumes "first_failure (new_calls s (snd (WriteUint32 os c v s))) = Some e"
  shows "fst (WriteUint32 os c v s) = Return (Some e)"
proof (cases "c = None \<or> deref_endian c = None
    \<or> PutUint32 (the (deref_endian c)) (replicate 4 0) v = None")
  case True
  then have "snd (WriteUint32 os c v s) = s"
    by (auto simp add: WriteUint32_def split: option.splits)
  with assms show ?thesis by simp
next
  case False
  then obtain en d' where en: "c \<noteq> None" "deref_endian c = Some en"
      "PutUint32 en (replicate 4 0) v = Some d'"
    by auto
  obtain m err s' where W: "Write os c d' s = ((m, err), s')"
    by (metis surj_pair)
  have s': "snd (WriteUint32 os c v s) = s'"
    by (simp add: WriteUint32_def en W)
  from Write_first_failure [of s os c d' e] assms have "err = Some e"
    by (simp add: s' W)
  then show ?thesis
    by (simp add: WriteUint32_def en W)
qed

lemma WriteUint64_first_failure:
  assumes "first_failure (new_calls s (snd (WriteUint64 os c v s))) = Some e"
  shows "fst (WriteUint64 os c v s) = Return (Some e)"
proof (cases "c = None \<or> deref_endian c = None
    \<or> PutUint64 (the (deref_endian c)) (replicate 8 0) v = None")
  case True
  then have "snd (WriteUint64 os c v s) = s"
    by (auto simp add: WriteUint64_def split: option.splits)
  with assms show ?thesis by simp
next
  case False
  then obtain en d' where en: "c \<noteq> None" "deref_endian c = Some en"
      "PutUint64 en (replicate 8 0) v = Some d'"
    by auto
  obtain m err s' where W: "Write os c d' s = ((m, err), s')"
    by (metis surj_pair)
  have s': "snd (WriteUint64 os c v s) = s'"
    by (simp add: WriteUint64_def en W)
  from Write_first_failure [of s os c d' e] assms have "err = Some e"
    by (simp add: s' W)
  then show ?thesis
    by (simp add: WriteUint64_def en W)
qed

subsection \<open>A configuration call that fails\<close>



lemma NewConn_error_nil:
  "snd (fst (NewConn os name a tenBit en s)) = Some e \<Longrightarrow>
   fst (fst (NewConn os name a tenBit en s)) = None"
  by (auto simp add: NewConn_def Let_def split: prod.splits sum.splits if_splits)

lemma NewConn_returns_first_failure:
  assumes "first_failure (new_calls s (snd (NewConn os name a tenBit en s))) = Some e"
  shows "fst (NewConn os name a tenBit en s) = (None, Some e)"
proof -
  have "snd (fst (NewConn os name a tenBit en s)) = Some e"
    using assms by (simp add: NewConn_first_failure)
  with NewConn_error_nil [OF this] show ?thesis
    by (simp add: prod_eq_iff)
qed

text \<open>
  Claim C8, as the code has it. Setting the calls to \<^verbatim>\<open>RawConn.Control\<close> aside,
  every operation returns the error of the first underlying call of its own that failed:
  the ioctl helper, \<^verbatim>\<open>Close\<close>, \<^verbatim>\<open>NewConn\<close> (with the nil connection),
  \<^verbatim>\<open>Read\<close>, \<^verbatim>\<open>Write\<close> and the six integer helpers (with the zero value).
  A later failure, which only the close in the failure path of \<^verbatim>\<open>NewConn\<close> can be,
  is not returned.
\<close>

theorem checked_failure_is_returned:
  "(first_failure (new_calls s (snd (ioctl os c cmd arg s))) = Some e
      \<longrightarrow> fst (ioctl os c cmd arg s) = Some e)
   \<and> (first_failure (new_calls s (snd (Close os c s))) = Some e
      \<longrightarrow> fst (fst (Close os c s)) = Some e)
   \<and> (first_failure (new_calls s (snd (NewConn os name a tenBit en s))) = Some e
      \<longrightarrow> fst (NewConn os name a tenBit en s) = (None, Some e))
   \<and> (first_failure (new_calls s (snd (Read os c data s))) = Some e
      \<longrightarrow> fst (snd (fst (Read os c data s))) = Some e)
   \<and> (first_failure (new_calls s (snd (Write os c data s))) = Some e
      \<longrightarrow> snd (fst (Write os c data s)) = Some e)
   \<and> (first_failure (new_calls s (snd (ReadUint16 os c s))) = Some e
      \<longrightarrow> fst (ReadUint16 os c s) = Return (0, Some e))
   \<and> (first_failure (new_calls s (snd (ReadUint32 os c s))) = Some e
      \<longrightarrow> fst (ReadUint32 os c s) = Return (0, Some e))
   \<and> (first_failure (new_calls s (snd (ReadUint64 os c s))) = Some e
      \<longrightarrow> fst (ReadUint64 os c s) = Return (0, Some e))
   \<and> (first_failure (new_calls s (snd (WriteUint16 os c x s))) = Some e
      \<longrightarrow> fst (WriteUint16 os c x s) = Return (Some e))
   \<and> (first_failure (new_calls s (snd (WriteUint32 os c y s))) = Some e
      \<longrightarrow> fst (WriteUint32 os c y s) = Return (Some e))
   \<and> (first_failure (new_calls s (snd (WriteUint64 os c z s))) = Some e
      \<longrightarrow> fst (WriteUint64 os c z s) = Return (Some e))"
  by (intro conjI impI)
    (erule ioctl_first_failure Close_first_failure NewConn_returns_first_failure
       Read_first_failure Write_first_failure
       ReadUint16_first_failure ReadUint32_first_failure ReadUint64_first_failure
       WriteUint16_first_failure WriteUint32_first_failure WriteUint64_first_failure)+

text \<open>
  Each of the eleven operations on a faulty device whose call fails: the ioctl (errno 5),
  the close (error 9), the transfers (error 11).
\<close>

theorem checked_failure_is_returned_witness:
  "first_failure (new_calls opened (snd (ioctl (faulty 8 None [(TENBIT, 5)] (Some 9)) (Some made) TENBIT 0 opened))) = Some (Errno 5)
   \<and> fst (ioctl (faulty 8 None [(TENBIT, 5)] (Some 9)) (Some made) TENBIT 0 opened) = Some (Errno 5)
   \<and> first_failure (new_calls boot (snd (Close (faulty 8 None [] (Some 9)) (Some sensor) boot))) = Some (OSError 9)
   \<and> fst (fst (Close (faulty 8 None [] (Some 9)) (Some sensor) boot)) = Some (OSError 9)
   \<and> first_failure (new_calls boot (snd (NewConn (faulty 8 None [(TENBIT, 5)] (Some 9)) (''/dev/i2c-1'') 0x76 False (Some LittleEndian) boot))) = Some (Errno 5)
   \<and> fst (NewConn (faulty 8 None [(TENBIT, 5)] (Some 9)) (''/dev/i2c-1'') 0x76 False (Some LittleEndian) boot) = (None, Some (Errno 5))
   \<and> first_failure (new_calls boot (snd (Read (faulty 8 (Some 11) [] None) (Some sensor) ([0, 0, 0]) boot))) = Some (OSError 11)
   \<and> fst (snd (fst (Read (faulty 8 (Some 11) [] None) (Some sensor) ([0, 0, 0]) boot))) = Some (OSError 11)
   \<and> first_failure (new_calls boot (snd (Write (faulty 8 (Some 11) [] None) (Some sensor) ([1, 2, 3]) boot))) = Some (OSError 11)
   \<and> snd (fst (Write (faulty 8 (Some 11) [] None) (Some sensor) ([1, 2, 3]) boot)) = Some (OSError 11)
   \<and> first_failure (new_calls boot (snd (ReadUint16 (faulty 8 (Some 11) [] None) (Some sensor) boot))) = Some (OSError 11)
   \<and> fst (ReadUint16 (faulty 8 (Some 11) [] None) (Some sensor) boot) = Return (0, Some (OSError 11))
   \<and> first_failure (new_calls boot (snd (ReadUint32 (faulty 8 (Some 11) [] None) (Some sensor) boot))) = Some (OSError 11)
   \<and> fst (ReadUint32 (faulty 8 (Some 11) [] None) (Some sensor) boot) = Return (0, Some (OSError 11))
   \<and> first_failure (new_calls boot (snd (ReadUint64 (faulty 8 (Some 11) [] None) (Some sensor) boot))) = Some (OSError 11)
   \<and> fst (ReadUint64 (faulty 8 (Some 11) [] None) (Some sensor) boot) = Return (0, Some (OSError 11))
   \<and> first_failure (new_calls boot (snd (WriteUint16 (faulty 8 (Some 11) [] None) (Some sensor) 0x0102 boot))) = Some (OSError 11)
   \<and> fst (WriteUint16 (faulty 8 (Some 11) [] None) (Some sensor) 0x0102 boot) = Return (Some (OSError 11))
   \<and> first_failure (new_calls boot (snd (WriteUint32 (faulty 8 (Some 11) [] None) (Some sensor) 0x0102 boot))) = Some (OSError 11)
   \<and> fst (WriteUint32 (faulty 8 (Some 11) [] None) (Some sensor) 0x0102 boot) = Return (Some (OSError 11))
   \<and> first_failure (new_calls boot (snd (WriteUint64 (faulty 8 (Some 11) [] None) (Some sensor) 0x0102 boot))) = Some (OSError 11)
   \<and> fst (WriteUint64 (faulty 8 (Some 11) [] None) (Some sensor) 0x0102 boot) = Return (Some (OSError 11))"
proof -
  have h0: "first_failure (new_calls opened (snd (ioctl (faulty 8 None [(TENBIT, 5)] (Some 9)) (Some made) TENBIT 0 opened))) = Some (Errno 5)"
    by (simp add: run_defs)
  note t0 = checked_failure_is_returned
    [where os = "faulty 8 None [(TENBIT, 5)] (Some 9)" and c = "Some made" and cmd = "TENBIT" and arg = "0" and s = "opened" and e = "Errno 5", THEN conjunct1, THEN mp, OF h0]
  have h1: "first_failure (new_calls boot (snd (Close (faulty 8 None [] (Some 9)) (Some sensor) boot))) = Some (OSError 9)"
    by (simp add: run_defs)
  note t1 = checked_failure_is_returned
    [where os = "faulty 8 None [] (Some 9)" and c = "Some sensor" and s = "boot" and e = "OSError 9", THEN conjunct2, THEN conjunct1, THEN mp, OF h1]
  have h2: "first_failure (new_calls boot (snd (NewConn (faulty 8 None [(TENBIT, 5)] (Some 9)) (''/dev/i2c-1'') 0x76 False (Some LittleEndian) boot))) = Some (Errno 5)"
    by (simp add: run_defs)
  note t2 = checked_failure_is_returned
    [where os = "faulty 8 None [(TENBIT, 5)] (Some 9)" and name = "''/dev/i2c-1''" and a = "0x76" and tenBit = "False" and en = "Some LittleEndian" and s = "boot" and e = "Errno 5", THEN conjunct2, THEN conjunct2, THEN conjunct1, THEN mp, OF h2]
  have h3: "first_failure (new_calls boot (snd (Read (faulty 8 (Some 11) [] None) (Some sensor) ([0, 0, 0]) boot))) = Some (OSError 11)"
    by (simp add: run_defs)
  note t3 = checked_failure_is_returned
    [where os = "faulty 8 (Some 11) [] None" and c = "Some sensor" and data = "[0, 0, 0]" and s = "boot" and e = "OSError 11", THEN conjunct2, THEN conjunct2, THEN conjunct2, THEN conjunct1, THEN mp, OF h3]
  have h4: "first_failure (new_calls boot (snd (Write (faulty 8 (Some 11) [] None) (Some sensor) ([1, 2, 3]) boot))) = Some (OSError 11)"
    by (simp add: run_defs)
  note t4 = checked_failure_is_returned
    [where os = "faulty 8 (Some 11) [] None" and c = "Some sensor" and data = "[1, 2, 3]" and s = "boot" and e = "OSError 11", THEN conjunct2, THEN conjunct2, THEN conjunct2, THEN conjunct2, THEN conjunct1, THEN mp, OF h4]
  have h5: "first_failure (new_calls boot (snd (ReadUint16 (faulty 8 (Some 11) [] None) (Some sensor) boot))) = Some (OSError 11)"
    by (simp add: run_defs)
  note t5 = checked_failure_is_returned
    [where os = "faulty 8 (Some 11) [] None" and c = "Some sensor" and s = "boot" and e = "OSError 11", THEN conjunct2, THEN conjunct2, THEN conjunct2, THEN conjunct2, THEN conjunct2, THEN conjunct1, THEN mp, OF h5]
  have h6: "first_failure (new_calls boot (snd (ReadUint32 (faulty 8 (Some 11) [] None) (Some sensor) boot))) = Some (OSError 11)"
    by (simp add: run_defs)
  note t6 = checked_failure_is_returned
    [where os = "faulty 8 (Some 11) [] None" and c = "Some sensor" and s = "boot" and e = "OSError 11", THEN conjunct2, THEN conjunct2, THEN conjunct2, THEN conjunct2, THEN conjunct2, THEN conjunct2, THEN conjunct1, THEN mp, OF h6]
  have h7: "first_failure (new_calls boot (snd (ReadUint64 (faulty 8 (Some 11) [] None) (Some sensor) boot))) = Some (OSError 11)"
    by (simp add: run_defs)
  note t7 = checked_failure_is_returned
    [where os = "faulty 8 (Some 11) [] None" and c = "Some sensor" and s = "boot" and e = "OSError 11", THEN conjunct2, THEN conjunct2, THEN conjunct2, THEN conjunct2, THEN conjunct2, THEN conjunct2, THEN conjunct2, THEN conjunct1, THEN mp, OF h7]
  have h8: "first_failure (new_calls boot (snd (WriteUint16 (faulty 8 (Some 11) [] None) (Some sensor) 0x0102 boot))) = Some (OSError 11)"
    by (simp add: run_defs)
  note t8 = checked_failure_is_returned
    [where os = "faulty 8 (Some 11) [] None" and c = "Some sensor" and x = "0x0102" and s = "boot" and e = "OSError 11", THEN conjunct2, THEN conjunct2, THEN conjunct2, THEN conjunct2, THEN conjunct2, THEN conjunct2, THEN conjunct2, THEN conjunct2, THEN conjunct1, THEN mp, OF h8]
  have h9: "first_failure (new_calls boot (snd (WriteUint32 (faulty 8 (Some 11) [] None) (Some sensor) 0x0102 boot))) = Some (OSError 11)"
    by (simp add: run_defs)
  note t9 = checked_failure_is_returned
    [where os = "faulty 8 (Some 11) [] None" and c = "Some sensor" and y = "0x0102" and s = "boot" and e = "OSError 11", THEN conjunct2, THEN conjunct2, THEN conjunct2, THEN conjunct2, THEN conjunct2, THEN conjunct2, THEN conjunct2, THEN conjunct2, THEN conjunct2, THEN conjunct1, THEN mp, OF h9]
  have h10: "first_failure (new_calls boot (snd (WriteUint64 (faulty 8 (Some 11) [] None) (Some sensor) 0x0102 boot))) = Some (OSError 11)"
    by (simp add: run_defs)
  note t10 = checked_failure_is_returned
    [where os = "faulty 8 (Some 11) [] None" and c = "Some sensor" and z = "0x0102" and s = "boot" and e = "OSError 11", THEN conjunct2, THEN conjunct2, THEN conjunct2, THEN conjunct2, THEN conjunct2, THEN conjunct2, THEN conjunct2, THEN conjunct2, THEN conjunct2, THEN conjunct2, THEN mp, OF h10]
  show ?thesis
    using h0 h1 h2 h3 h4 h5 h6 h7 h8 h9 h10
      t0 t1 t2 t3 t4 t5 t6 t7 t8 t9 t10
    by simp
qed

text \<open>
  Claim C8 as it is written, that every failure of an underlying call reaches the caller,
  does not hold: on a device that refuses the addressing mode with errno 5 and then fails to
  close the file with error 9, \<^verbatim>\<open>NewConn\<close> returns errno 5 and the error of the close
  is in the log only.
\<close>

theorem cleanup_Close_error_is_dropped:
  "NewConn (faulty 8 None [(TENBIT, 5)] (Some 9)) ''/dev/i2c-1'' 0x76 False (Some LittleEndian) boot
     = ((None, Some (Errno 5)),
        \<lparr>world = [], calls = [EvOpen ''/dev/i2c-1'' (Inr 3), EvSyscallConn 3 None,
           EvControl 3 None, EvIoctl 3 TENBIT 0 5, EvClose 3 (Some 9)]\<rparr>)
   \<and> failure (EvClose 3 (Some 9)) = Some (OSError 9)
   \<and> Errno 5 \<noteq> OSError 9"
  by (simp add: run_defs)

subsection \<open>Close on the nil connection\<close>

text \<open>
  Claim C5 as it is written, that \<^verbatim>\<open>Close\<close> on the nil connection returns the closed
  error, does not hold: it returns the invalid-connection error.
\<close>

theorem Close_nil_is_not_ErrClosed:
  "fst (fst (Close loopback None boot)) = Some ErrInvalid
   \<and> fst (fst (Close loopback None boot)) \<noteq> Some ErrClosed"
  by (simp add: Close_def)

text \<open>
  Claim C5, as the code has it. \<^verbatim>\<open>Close\<close> on the nil connection returns the
  invalid-connection error, as every other method does, and calls nothing; and
  \<^verbatim>\<open>Close\<close> returns the closed error exactly when the connection is not nil and has
  no file, that is, when it is already closed.
\<close>

theorem Close_nil_is_ErrInvalid:
  "Close os None s = ((Some ErrInvalid, None), s)
   \<and> ((fst (fst (Close os c s)) = Some ErrClosed) \<longleftrightarrow> (\<exists>cn. c = Some cn \<and> f cn = None))"
  by (auto simp add: Close_def FileClose_def split: option.splits prod.splits)

subsection \<open>The closed state\<close>

text \<open>
  A connection without a file answers every call with the closed error and calls nothing,
  except that the integer writers reach for the byte order first.
\<close>

lemma closed_is_terminal:
  assumes "f cn = None"
  shows "Close os (Some cn) s = ((Some ErrClosed, Some cn), s)"
    and "Read os (Some cn) data s = ((0, Some ErrClosed, data), s)"
    and "Write os (Some cn) data s = ((0, Some ErrClosed), s)"
    and "ReadUint16 os (Some cn) s = (Return (0, Some ErrClosed), s)"
    and "ReadUint32 os (Some cn) s = (Return (0, Some ErrClosed), s)"
    and "ReadUint64 os (Some cn) s = (Return (0, Some ErrClosed), s)"
  using assms
  by (simp_all add: Close_def Read_def Write_def ReadUint16_def ReadUint32_def ReadUint64_def)

lemma closed_WriteUint:
  assumes "f cn = None"
  shows "WriteUint16 os (Some cn) x s =
           (if endian cn = None then Panic else Return (Some ErrClosed), s)"
    and "WriteUint32 os (Some cn) y s =
           (if endian cn = None then Panic else Return (Some ErrClosed), s)"
    and "WriteUint64 os (Some cn) z s =
           (if endian cn = None then Panic else Return (Some ErrClosed), s)"
  using assms codec16 [of "the (endian cn)" x] codec32 [of "the (endian cn)" y]
    codec64 [of "the (endian cn)" z]
  by (auto simp add: WriteUint16_def WriteUint32_def WriteUint64_def Write_def deref_endian_def)

lemma Close_leaves_closed:
  "\<exists>cn'. snd (fst (Close os (Some cn) s)) = Some cn' \<and> f cn' = None
     \<and> bus cn' = bus cn \<and> addr cn' = addr cn \<and> endian cn' = endian cn"
  by (auto simp add: Close_def split: option.splits prod.splits)

lemma Close_failed_still_closes:
  assumes "f cn = Some fh" and "os_Close os fh (world s) = (Some e, w)"
  shows "fst (Close os (Some cn) s) = (Some (OSError e), Some (cn\<lparr>f := None\<rparr>))"
  using assms by (simp add: Close_def FileClose_def)

subsection \<open>The byte order of a connection that \<^verbatim>\<open>NewConn\<close> made\<close>

lemma NewConn_endian_nil:
  "fst (fst (NewConn os name a tenBit en s)) = Some cn \<Longrightarrow> endian cn = None \<and> f cn \<noteq> None"
  by (auto simp add: NewConn_def Let_def split: prod.splits sum.splits if_splits)

text \<open>
  Claim C1 says that the byte order given to \<^verbatim>\<open>NewConn\<close> is the one the integer
  helpers use. The code does not do this: on the loopback device, \<^verbatim>\<open>NewConn\<close> with
  either byte order returns the same connection, whose byte order is nil, and on that
  connection \<^verbatim>\<open>WriteUint16\<close> panics, as does \<^verbatim>\<open>ReadUint16\<close> once its two bytes
  are read.
\<close>

theorem NewConn_discards_byte_order:
  "fst (NewConn loopback ''/dev/i2c-1'' 0x76 False (Some BigEndian) boot) = (Some made, None)
   \<and> fst (NewConn loopback ''/dev/i2c-1'' 0x76 False (Some LittleEndian) boot) = (Some made, None)
   \<and> endian made = None
   \<and> fst (WriteUint16 loopback (Some made) 0x0102 boot) = Panic
   \<and> fst (ReadUint16 loopback (Some made) \<lparr>world = [1, 2], calls = []\<rparr>) = Panic"
  by (simp add: run_defs)

text \<open>
  Claim C4 says that after a successful \<^verbatim>\<open>Close\<close> every operation returns the closed
  error. On the connection that \<^verbatim>\<open>NewConn\<close> made, closed successfully, the three
  integer writers panic instead (the other operations do return the closed error, by
  \<open>closed_is_terminal\<close>).
\<close>

theorem WriteUint_after_Close_panics:
  "fst (NewConn loopback ''/dev/i2c-1'' 0x76 False (Some BigEndian) boot) = (Some made, None)
   \<and> fst (Close loopback (Some made) boot) = (None, Some (made\<lparr>f := None\<rparr>))
   \<and> fst (WriteUint16 loopback (Some (made\<lparr>f := None\<rparr>)) 0x0102
        (snd (Close loopback (Some made) boot))) = Panic
   \<and> fst (WriteUint32 loopback (Some (made\<lparr>f := None\<rparr>)) 0x0102
        (snd (Close loopback (Some made) boot))) = Panic
   \<and> fst (WriteUint64 loopback (Some (made\<lparr>f := None\<rparr>)) 0x0102
        (snd (Close loopback (Some made) boot))) = Panic"
  by (simp add: run_defs)

text \<open>
  Claim C10 says that a \<^verbatim>\<open>Close\<close> whose file-close fails still closes the connection
  and that every later operation returns the closed error. On the device whose close
  reports error 9, \<^verbatim>\<open>Close\<close> returns that error and clears the file, and
  \<^verbatim>\<open>WriteUint16\<close> on the connection then panics.
\<close>

theorem WriteUint_after_failed_Close_panics:
  "fst (NewConn (faulty 8 None [] (Some 9)) ''/dev/i2c-1'' 0x76 False (Some BigEndian) boot)
     = (Some made, None)
   \<and> fst (Close (faulty 8 None [] (Some 9)) (Some made) boot)
     = (Some (OSError 9), Some (made\<lparr>f := None\<rparr>))
   \<and> fst (WriteUint16 (faulty 8 None [] (Some 9)) (Some (made\<lparr>f := None\<rparr>)) 0x0102
        (snd (Close (faulty 8 None [] (Some 9)) (Some made) boot))) = Panic"
  by (simp add: run_defs)

subsection \<open>The round trip on a connection that \<^verbatim>\<open>NewConn\<close> made\<close>

text \<open>
  Whatever the device and whatever byte order was asked for, the integer writers panic on
  the connection that \<^verbatim>\<open>NewConn\<close> returns, before anything is written.
\<close>

lemma NewConn_WriteUint_panics:
  assumes "fst (fst (NewConn os name a tenBit en s)) = Some cn"
  shows "WriteUint16 os (Some cn) x s' = (Panic, s')"
    and "WriteUint32 os (Some cn) y s' = (Panic, s')"
    and "WriteUint64 os (Some cn) z s' = (Panic, s')"
  using NewConn_endian_nil [OF assms]
  by (simp_all add: WriteUint16_def WriteUint32_def WriteUint64_def deref_endian_def)

text \<open>
  Claim C6 says that a value written with WriteUintN and read back with the matching
  ReadUintN through a loopback device is the value written, for both byte orders. On the
  loopback device, the connection that \<^verbatim>\<open>NewConn\<close> returns for the little-endian
  and for the big-endian order is the same one, without a byte order; on it each of
  \<^verbatim>\<open>WriteUint16\<close>, \<^verbatim>\<open>WriteUint32\<close> and \<^verbatim>\<open>WriteUint64\<close> panics and
  leaves the state as it was, so nothing is written and no value comes back.
\<close>

theorem roundtrip_after_NewConn_panics:
  "fst (NewConn loopback ''/dev/i2c-1'' 0x76 False (Some LittleEndian) boot) = (Some made, None)
   \<and> fst (NewConn loopback ''/dev/i2c-1'' 0x76 False (Some BigEndian) boot) = (Some made, None)
   \<and> WriteUint16 loopback (Some made) 0x0102
        (snd (NewConn loopback ''/dev/i2c-1'' 0x76 False (Some LittleEndian) boot))
     = (Panic, snd (NewConn loopback ''/dev/i2c-1'' 0x76 False (Some LittleEndian) boot))
   \<and> WriteUint32 loopback (Some made) 0x01020304
        (snd (NewConn loopback ''/dev/i2c-1'' 0x76 False (Some LittleEndian) boot))
     = (Panic, snd (NewConn loopback ''/dev/i2c-1'' 0x76 False (Some LittleEndian) boot))
   \<and> WriteUint64 loopback (Some made) 0x0102030405060708
        (snd (NewConn loopback ''/dev/i2c-1'' 0x76 False (Some LittleEndian) boot))
     = (Panic, snd (NewConn loopback ''/dev/i2c-1'' 0x76 False (Some LittleEndian) boot))"
  by (simp add: run_defs)

end
